theory Spec2Isabelle
  imports Main
begin

section \<open>The build server of src/server.ts\<close>

text \<open>
  The server turns a tool request into one invocation of an external build tool: it
  resolves the input path, checks that the file exists and has an accepted extension,
  assembles the argument vector, launches the tool through \<open>runCommand\<close> and formats
  the result. The embedding follows \<open>src/server.ts\<close> function by function.
\<close>

subsection \<open>JavaScript values\<close>

text \<open>
  An optional string parameter (\<open>x?: string\<close>, or a \<open>process.env\<close> entry) is a
  \<open>string option\<close>, \<open>None\<close> being \<open>undefined\<close>. In a condition such a value is truthy
  when it is defined and not the empty string.
\<close>

definition truthy :: "string option \<Rightarrow> bool" where
  "truthy v = (case v of None \<Rightarrow> False | Some s \<Rightarrow> s \<noteq> [])"

text \<open>\<open>a || b\<close>: the left operand when it is truthy, the right one otherwise.\<close>

definition js_or :: "string option \<Rightarrow> string option \<Rightarrow> string option" where
  "js_or a b = (if truthy a then a else b)"

text \<open>\<open>a || 'literal'\<close>, whose value is always a string.\<close>

definition js_or_default :: "string option \<Rightarrow> string \<Rightarrow> string" where
  "js_or_default a d = (case a of None \<Rightarrow> d | Some s \<Rightarrow> (if s \<noteq> [] then s else d))"

text \<open>\<open>String.prototype.toLowerCase\<close> on the ASCII letters; other characters are kept.\<close>

definition lower_char :: "char \<Rightarrow> char" where
  "lower_char c =
     (case map_of (zip ''ABCDEFGHIJKLMNOPQRSTUVWXYZ'' ''abcdefghijklmnopqrstuvwxyz'') c of
        None \<Rightarrow> c
      | Some l \<Rightarrow> l)"

definition toLowerCase :: "string \<Rightarrow> string" where
  "toLowerCase s = map lower_char s"

text \<open>\<open>Array.prototype.join\<close> with a separator.\<close>

fun join :: "string \<Rightarrow> string list \<Rightarrow> string" where
  "join sep [] = []"
| "join sep [x] = x"
| "join sep (x # y # ys) = x @ sep @ join sep (y # ys)"

text \<open>The double quote, and \<open>'"' + p + '"'\<close>.\<close>

definition dq :: char where
  "dq = CHR 0x22"

definition quoted :: "string \<Rightarrow> string" where
  "quoted p = [dq] @ p @ [dq]"

text \<open>
  The decimal text of a number, as a template literal prints an exit code
  (\<open>null\<close> for an absent one).
\<close>

fun digits :: "nat \<Rightarrow> string" where
  "digits n =
     (if n < 10 then [''0123456789'' ! n] else digits (n div 10) @ [''0123456789'' ! (n mod 10)])"

definition show_int :: "int \<Rightarrow> string" where
  "show_int i = (if i < 0 then CHR ''-'' # digits (nat (- i)) else digits (nat i))"

definition show_code :: "int option \<Rightarrow> string" where
  "show_code c = (case c of None \<Rightarrow> ''null'' | Some i \<Rightarrow> show_int i)"

subsection \<open>The host: file system, path module, environment and child processes\<close>

text \<open>
  What the functions read from outside the program is a parameter of the model:
  \<open>path.resolve\<close>, \<open>path.extname\<close>, \<open>path.dirname\<close> and \<open>path.basename\<close> of the platform,
  \<open>fs.existsSync\<close>, the three entries of \<open>process.env\<close> that \<open>resolveDefaults\<close> reads, and,
  for each call of \<open>child_process.spawn\<close>, its outcome: it throws at once, or it
  returns a child, which then emits the given events in order. Every call passes
  \<open>shell: true\<close>, so the process that is started is the command interpreter: a tool
  that the interpreter cannot find or run is reported by the interpreter's exit code on
  \<open>close\<close>. The child's \<open>error\<close> event stands for a process that could not be
  started at all.
\<close>

record spawn_call =
  cmd :: string
  args :: "string list"
  cwd :: "string option"
  shell :: bool

datatype child_event =
    StdoutData string
  | StderrData string
  | Close "int option"
  | ErrorEvent string

datatype spawn_outcome =
    Throws string
  | Child "child_event list"

record host =
  resolve :: "string \<Rightarrow> string"
  existsSync :: "string \<Rightarrow> bool"
  extname :: "string \<Rightarrow> string"
  dirname :: "string \<Rightarrow> string"
  basename :: "string \<Rightarrow> string"
  RSVARS_BAT :: "string option"
  RSVARS_PATH :: "string option"
  MSBUILD_PATH :: "string option"
  spawn :: "spawn_call \<Rightarrow> spawn_outcome"

subsection \<open>Errors, results and promises\<close>

text \<open>
  Every handler throws \<open>new Error(message)\<close>. The two conditions are told apart by the
  constructor, which carries the message of the source. \<open>SpawnError\<close> is an exception
  thrown by \<open>spawn\<close> itself.
\<close>

datatype error =
    NotFound string
  | UnsupportedKind string
  | SpawnError string

record exec_result =
  code :: "int option"
  stdout :: string
  stderr :: string

text \<open>
  The outcome of an \<open>async\<close> function: still pending (the awaited child never closes),
  fulfilled with a value, or rejected with the error it threw. \<open>Exited\<close> is the fourth
  way a call can end: the server process exits on an uncaught exception while the
  promise is still pending, so the promise is never settled.
\<close>

datatype 'a promise =
    Pending
  | Fulfilled 'a
  | Rejected error
  | Exited string

text \<open>The state threaded through a request is the list of calls of \<open>spawn\<close> made so far.\<close>

type_synonym world = "spawn_call list"

subsection \<open>runCommand\<close>

text \<open>
  \<open>runCommand\<close> registers three listeners: \<open>data\<close> on the child's stdout and stderr, which
  append to the two buffers, and \<open>close\<close>, which resolves the promise with the code and
  the buffers as they are then. Resolving a promise a second time has no effect. The
  executor receives \<open>resolvePromise\<close> only, and no listener is registered for the child's
  \<open>error\<close> event: an \<open>error\<close> event without a listener is thrown by the emitter, nothing
  in the server catches it, and the server process exits. After that no listener runs.
  An exception thrown inside the executor, which only \<open>spawn\<close> can raise, rejects the
  promise.
\<close>

record run_state =
  out_buf :: string
  err_buf :: string
  settled :: "exec_result option"
  exited :: "string option"

definition run_init :: run_state where
  "run_init = \<lparr>out_buf = [], err_buf = [], settled = None, exited = None\<rparr>"

fun deliver :: "child_event \<Rightarrow> run_state \<Rightarrow> run_state" where
  "deliver (StdoutData d) s = s\<lparr>out_buf := out_buf s @ d\<rparr>"
| "deliver (StderrData d) s = s\<lparr>err_buf := err_buf s @ d\<rparr>"
| "deliver (Close c) s =
     (case settled s of
        None \<Rightarrow> s\<lparr>settled := Some \<lparr>code = c, stdout = out_buf s, stderr = err_buf s\<rparr>\<rparr>
      | Some r \<Rightarrow> s)"
| "deliver (ErrorEvent e) s = s\<lparr>exited := Some e\<rparr>"

definition on_event :: "child_event \<Rightarrow> run_state \<Rightarrow> run_state" where
  "on_event ev s = (case exited s of None \<Rightarrow> deliver ev s | Some e \<Rightarrow> s)"

definition promise_of :: "run_state \<Rightarrow> exec_result promise" where
  "promise_of s =
     (case settled s of
        Some r \<Rightarrow> Fulfilled r
      | None \<Rightarrow> (case exited s of None \<Rightarrow> Pending | Some e \<Rightarrow> Exited e))"

definition run_child :: "child_event list \<Rightarrow> exec_result promise" where
  "run_child evs = promise_of (fold on_event evs run_init)"

definition runCommand ::
  "host \<Rightarrow> string \<Rightarrow> string list \<Rightarrow> string option \<Rightarrow> world \<Rightarrow> exec_result promise \<times> world" where
  "runCommand h c a dir w =
     (let call = \<lparr>cmd = c, args = a, cwd = dir, shell = True\<rparr>
      in (case spawn h call of
            Throws e \<Rightarrow> (Rejected (SpawnError e), w @ [call])
          | Child evs \<Rightarrow> (run_child evs, w @ [call])))"

subsection \<open>Delphi: build and clean with MSBuild\<close>

record delphi_req =
  project :: string
  configuration :: "string option"
  platform :: "string option"
  msbuildPath :: "string option"
  rsvarsPath :: "string option"

definition resolveDefaults :: "host \<Rightarrow> string option \<times> string option" where
  "resolveDefaults h = (js_or (RSVARS_BAT h) (RSVARS_PATH h), MSBUILD_PATH h)"

definition isDelphiProject :: "host \<Rightarrow> string \<Rightarrow> bool" where
  "isDelphiProject h file =
     (let ext = toLowerCase (extname h file) in ext = ''.dproj'' \<or> ext = ''.groupproj'')"

text \<open>\<open>v ? f(v) : ''\<close> for an optional string \<open>v\<close>.\<close>

definition when_truthy :: "string option \<Rightarrow> (string \<Rightarrow> string) \<Rightarrow> string" where
  "when_truthy v f = (case v of None \<Rightarrow> [] | Some s \<Rightarrow> (if s \<noteq> [] then f s else []))"

text \<open>
  The argument array of \<open>buildWithMSBuild\<close> (target \<open>/t:Build\<close>) and of
  \<open>cleanWithMSBuild\<close> (target \<open>/t:Clean\<close>); \<open>filter(Boolean)\<close> drops the empty strings.
\<close>

definition msbuild_args :: "string \<Rightarrow> string \<Rightarrow> string option \<Rightarrow> string option \<Rightarrow> string list" where
  "msbuild_args target projPath config plat =
     filter (\<lambda>s. s \<noteq> [])
       [quoted projPath,
        target,
        when_truthy config (\<lambda>c. ''/p:Config='' @ c),
        when_truthy plat (\<lambda>p. ''/p:Platform='' @ p)]"

text \<open>The composite instruction handed to \<open>cmd /s /c\<close>.\<close>

definition composite_instruction :: "string \<Rightarrow> string \<Rightarrow> string list \<Rightarrow> string" where
  "composite_instruction rsvarsFinal msbuildFinal as =
     [dq] @ ''@echo off && call '' @ [dq] @ rsvarsFinal @ [dq] @ '' && '' @
     msbuildFinal @ '' '' @ join '' '' as @ [dq]"

definition runMSBuild ::
  "host \<Rightarrow> string \<Rightarrow> delphi_req \<Rightarrow> world \<Rightarrow> exec_result promise \<times> world" where
  "runMSBuild h target req w =
     (let projPath = resolve h (project req) in
      if \<not> existsSync h projPath then
        (Rejected (NotFound (''Project not found: '' @ projPath)), w)
      else if \<not> isDelphiProject h projPath then
        (Rejected (UnsupportedKind ''Unsupported project type. Provide a .dproj or .groupproj file''), w)
      else
        (let (rsvars, msbuild) = resolveDefaults h;
             rsvarsFinal = js_or (rsvarsPath req) rsvars;
             msbuildFinal = js_or_default (js_or (msbuildPath req) msbuild) ''msbuild'';
             as = msbuild_args target projPath (configuration req) (platform req)
         in (case rsvarsFinal of
               Some r \<Rightarrow>
                 (if r \<noteq> [] \<and> existsSync h r then
                    runCommand h ''cmd'' [''/s'', ''/c'', composite_instruction r msbuildFinal as] None w
                  else runCommand h msbuildFinal as None w)
             | None \<Rightarrow> runCommand h msbuildFinal as None w)))"

text \<open>
  \<open>buildWithMSBuild\<close> and \<open>cleanWithMSBuild\<close> are the same text in the source but for
  the target flag.
\<close>

definition buildWithMSBuild :: "host \<Rightarrow> delphi_req \<Rightarrow> world \<Rightarrow> exec_result promise \<times> world" where
  "buildWithMSBuild h req w = runMSBuild h ''/t:Build'' req w"

definition cleanWithMSBuild :: "host \<Rightarrow> delphi_req \<Rightarrow> world \<Rightarrow> exec_result promise \<times> world" where
  "cleanWithMSBuild h req w = runMSBuild h ''/t:Clean'' req w"

subsection \<open>Free Pascal\<close>

record fpc_req =
  source :: string
  output' :: "string option"
  defines' :: "string list option"
  unitPaths :: "string list option"
  includePaths :: "string list option"
  cpu :: "string option"
  os :: "string option"
  fpcPath :: "string option"

definition isFpcSource :: "host \<Rightarrow> string \<Rightarrow> bool" where
  "isFpcSource h file =
     (let ext = toLowerCase (extname h file)
      in ext = ''.pas'' \<or> ext = ''.pp'' \<or> ext = ''.p'' \<or> ext = ''.lpr'')"

text \<open>\<open>if (v) args.push(f(v))\<close> and \<open>(xs || []).forEach(x => args.push(f(x)))\<close>.\<close>

definition push_if :: "string option \<Rightarrow> (string \<Rightarrow> string) \<Rightarrow> string list \<Rightarrow> string list" where
  "push_if v f as = (case v of None \<Rightarrow> as | Some s \<Rightarrow> (if s \<noteq> [] then as @ [f s] else as))"

definition push_each :: "string list option \<Rightarrow> (string \<Rightarrow> string) \<Rightarrow> string list \<Rightarrow> string list" where
  "push_each xs f as = fold (\<lambda>x acc. acc @ [f x]) (case xs of None \<Rightarrow> [] | Some l \<Rightarrow> l) as"

definition fpc_args :: "host \<Rightarrow> string \<Rightarrow> fpc_req \<Rightarrow> string list" where
  "fpc_args h srcPath req =
     (let a0 = [];
          a1 = push_if (cpu req) (\<lambda>c. ''-P'' @ c) a0;
          a2 = push_if (os req) (\<lambda>t. ''-T'' @ t) a1;
          a3 = push_if (output' req) (\<lambda>out. ''-o'' @ resolve h out) a2;
          a4 = push_each (defines' req) (\<lambda>d. ''-d'' @ d) a3;
          a5 = push_each (unitPaths req) (\<lambda>p. ''-Fu'' @ resolve h p) a4;
          a6 = push_each (includePaths req) (\<lambda>p. ''-Fi'' @ resolve h p) a5
      in a6 @ [quoted srcPath])"

definition buildWithFpc :: "host \<Rightarrow> fpc_req \<Rightarrow> world \<Rightarrow> exec_result promise \<times> world" where
  "buildWithFpc h req w =
     (let srcPath = resolve h (source req) in
      if \<not> existsSync h srcPath then
        (Rejected (NotFound (''Source not found: '' @ srcPath)), w)
      else if \<not> isFpcSource h srcPath then
        (Rejected (UnsupportedKind ''Unsupported source type. Provide a .lpr/.pas/.pp''), w)
      else
        (let as = fpc_args h srcPath req;
             compiler = js_or_default (fpcPath req) ''fpc''
         in runCommand h compiler as (Some (dirname h srcPath)) w))"

subsection \<open>Lazarus\<close>

record lazarus_build_req =
  lb_project :: string
  buildMode :: "string option"
  lb_cpu :: "string option"
  lb_os :: "string option"
  lb_lazbuildPath :: "string option"

record lazarus_clean_req =
  lc_project :: string
  lc_lazbuildPath :: "string option"

definition isLazarusProject :: "host \<Rightarrow> string \<Rightarrow> bool" where
  "isLazarusProject h file = (toLowerCase (extname h file) = ''.lpi'')"

text \<open>
  \<open>lazarusBuild\<close> starts from \<open>['--build-mode=']\<close> and either overwrites its first entry
  or pops it.
\<close>

definition lazarus_args :: "string \<Rightarrow> lazarus_build_req \<Rightarrow> string list" where
  "lazarus_args projPath req =
     (let a0 = [''--build-mode=''];
          a1 = (case buildMode req of
                  None \<Rightarrow> butlast a0
                | Some m \<Rightarrow> (if m \<noteq> [] then a0[0 := ''--build-mode='' @ m] else butlast a0));
          a2 = push_if (lb_cpu req) (\<lambda>c. ''--cpu='' @ c) a1;
          a3 = push_if (lb_os req) (\<lambda>t. ''--os='' @ t) a2
      in a3 @ [quoted projPath])"

definition lazarusBuild :: "host \<Rightarrow> lazarus_build_req \<Rightarrow> world \<Rightarrow> exec_result promise \<times> world" where
  "lazarusBuild h req w =
     (let projPath = resolve h (lb_project req) in
      if \<not> existsSync h projPath then
        (Rejected (NotFound (''Project not found: '' @ projPath)), w)
      else if \<not> isLazarusProject h projPath then
        (Rejected (UnsupportedKind ''Unsupported project type. Provide a .lpi file''), w)
      else
        (let as = lazarus_args projPath req;
             lazbuild = js_or_default (lb_lazbuildPath req) ''lazbuild''
         in runCommand h lazbuild as (Some (dirname h projPath)) w))"

definition lazarusClean :: "host \<Rightarrow> lazarus_clean_req \<Rightarrow> world \<Rightarrow> exec_result promise \<times> world" where
  "lazarusClean h req w =
     (let projPath = resolve h (lc_project req) in
      if \<not> existsSync h projPath then
        (Rejected (NotFound (''Project not found: '' @ projPath)), w)
      else if \<not> isLazarusProject h projPath then
        (Rejected (UnsupportedKind ''Unsupported project type. Provide a .lpi file''), w)
      else
        (let as = [''--clean'', quoted projPath];
             lazbuild = js_or_default (lc_lazbuildPath req) ''lazbuild''
         in runCommand h lazbuild as (Some (dirname h projPath)) w))"

subsection \<open>The registered tools\<close>

text \<open>
  A tool response: the four text segments of \<open>content\<close>, in order, and \<open>isError\<close>.
  The five handlers of \<open>main\<close> differ in the function they await, the label of the
  status line and the request field whose base name they print.
\<close>

record response =
  content :: "string list"
  isError :: bool

definition tool_response :: "string \<Rightarrow> string \<Rightarrow> exec_result \<Rightarrow> response" where
  "tool_response label name r =
     (let ok = (code r = Some 0)
      in \<lparr>content =
            [if ok then label @ '' succeeded for '' @ name else label @ '' failed for '' @ name,
             ''Exit code: '' @ show_code (code r),
             ''--- STDOUT ---'' @ [CHR 0x0A] @ stdout r,
             ''--- STDERR ---'' @ [CHR 0x0A] @ stderr r],
          isError = \<not> ok\<rparr>)"

text \<open>
  \<open>const r = await p; return f(r)\<close> inside an \<open>async\<close> function: a rejection of \<open>p\<close>
  rejects the function's own promise, a pending \<open>p\<close> leaves it pending, and when the
  process exits nothing more runs.
\<close>

definition await_then :: "'a promise \<times> world \<Rightarrow> ('a \<Rightarrow> 'b) \<Rightarrow> 'b promise \<times> world" where
  "await_then pw f =
     (case pw of
        (Pending, w) \<Rightarrow> (Pending, w)
      | (Fulfilled r, w) \<Rightarrow> (Fulfilled (f r), w)
      | (Rejected e, w) \<Rightarrow> (Rejected e, w)
      | (Exited e, w) \<Rightarrow> (Exited e, w))"

datatype tool_call =
    delphi_build delphi_req
  | delphi_clean delphi_req
  | fpc_build fpc_req
  | lazarus_build lazarus_build_req
  | lazarus_clean lazarus_clean_req

fun run_tool :: "host \<Rightarrow> tool_call \<Rightarrow> world \<Rightarrow> exec_result promise \<times> world" where
  "run_tool h (delphi_build req) w = buildWithMSBuild h req w"
| "run_tool h (delphi_clean req) w = cleanWithMSBuild h req w"
| "run_tool h (fpc_build req) w = buildWithFpc h req w"
| "run_tool h (lazarus_build req) w = lazarusBuild h req w"
| "run_tool h (lazarus_clean req) w = lazarusClean h req w"

fun call_tool :: "host \<Rightarrow> tool_call \<Rightarrow> world \<Rightarrow> response promise \<times> world" where
  "call_tool h (delphi_build req) w =
     await_then (buildWithMSBuild h req w) (tool_response ''Build'' (basename h (project req)))"
| "call_tool h (delphi_clean req) w =
     await_then (cleanWithMSBuild h req w) (tool_response ''Clean'' (basename h (project req)))"
| "call_tool h (fpc_build req) w =
     await_then (buildWithFpc h req w) (tool_response ''FPC build'' (basename h (source req)))"
| "call_tool h (lazarus_build req) w =
     await_then (lazarusBuild h req w) (tool_response ''Lazarus build'' (basename h (lb_project req)))"
| "call_tool h (lazarus_clean req) w =
     await_then (lazarusClean h req w) (tool_response ''Lazarus clean'' (basename h (lc_project req)))"

text \<open>The input path of a request, and the extensions its handler accepts.\<close>

fun input_path :: "tool_call \<Rightarrow> string" where
  "input_path (delphi_build req) = project req"
| "input_path (delphi_clean req) = project req"
| "input_path (fpc_build req) = source req"
| "input_path (lazarus_build req) = lb_project req"
| "input_path (lazarus_clean req) = lc_project req"

fun accepted :: "tool_call \<Rightarrow> string list" where
  "accepted (delphi_build req) = [''.dproj'', ''.groupproj'']"
| "accepted (delphi_clean req) = [''.dproj'', ''.groupproj'']"
| "accepted (fpc_build req) = [''.pas'', ''.pp'', ''.p'', ''.lpr'']"
| "accepted (lazarus_build req) = [''.lpi'']"
| "accepted (lazarus_clean req) = [''.lpi'']"

text \<open>The accepted sets as the specification lists them.\<close>

fun spec_accepted :: "tool_call \<Rightarrow> string list" where
  "spec_accepted (delphi_build req) = [''.dproj'', ''.groupproj'']"
| "spec_accepted (delphi_clean req) = [''.dproj'', ''.groupproj'']"
| "spec_accepted (fpc_build req) = [''.lpr'', ''.pas'', ''.pp'']"
| "spec_accepted (lazarus_build req) = [''.lpi'']"
| "spec_accepted (lazarus_clean req) = [''.lpi'']"

definition is_not_found :: "'a promise \<Rightarrow> bool" where
  "is_not_found p = (case p of Rejected (NotFound m) \<Rightarrow> True | _ \<Rightarrow> False)"

definition is_unsupported :: "'a promise \<Rightarrow> bool" where
  "is_unsupported p = (case p of Rejected (UnsupportedKind m) \<Rightarrow> True | _ \<Rightarrow> False)"


subsection \<open>A POSIX host\<close>

text \<open>
  For concrete runs: \<open>path.posix\<close> on absolute or simple relative paths. The last
  component of a path is what follows its last slash once trailing slashes are dropped;
  its extension starts at its last dot, unless that dot is its first character or the
  component is \<open>..\<close>.
\<close>

definition last_component :: "string \<Rightarrow> string" where
  "last_component p =
     rev (takeWhile (\<lambda>c. c \<noteq> CHR ''/'') (dropWhile (\<lambda>c. c = CHR ''/'') (rev p)))"

definition posix_extname :: "string \<Rightarrow> string" where
  "posix_extname p =
     (let comp = last_component p;
          tail = rev (takeWhile (\<lambda>c. c \<noteq> CHR ''.'') (rev comp))
      in if length tail = length comp then []
         else if length tail + 1 = length comp then []
         else if comp = ''..'' then []
         else CHR ''.'' # tail)"

definition posix_basename :: "string \<Rightarrow> string" where
  "posix_basename p = last_component p"

definition posix_dirname :: "string \<Rightarrow> string" where
  "posix_dirname p =
     (case p of
        [] \<Rightarrow> ''.''
      | c # cs \<Rightarrow>
          (let r = dropWhile (\<lambda>x. x \<noteq> CHR ''/'') (dropWhile (\<lambda>x. x = CHR ''/'') (rev cs))
           in case r of
                [] \<Rightarrow> (if c = CHR ''/'' then ''/'' else ''.'')
              | s # pre \<Rightarrow>
                  (if c = CHR ''/'' \<and> pre = [] then ''//'' else c # rev pre)))"

text \<open>
  \<open>path.resolve\<close> of one path against the working directory \<open>/work\<close>: a relative path
  is appended to the working directory, then empty and \<open>.\<close> segments are dropped and each
  \<open>..\<close> removes the segment before it, if there is one.
\<close>

fun split_slash :: "string \<Rightarrow> string list" where
  "split_slash [] = [[]]"
| "split_slash (c # cs) =
     (if c = CHR ''/'' then [] # split_slash cs
      else (case split_slash cs of [] \<Rightarrow> [[c]] | seg # segs \<Rightarrow> (c # seg) # segs))"

fun normalize_segments :: "string list \<Rightarrow> string list \<Rightarrow> string list" where
  "normalize_segments [] kept = rev kept"
| "normalize_segments (seg # segs) kept =
     (if seg = [] \<or> seg = ''.'' then normalize_segments segs kept
      else if seg = ''..'' then normalize_segments segs (case kept of [] \<Rightarrow> [] | k # ks \<Rightarrow> ks)
      else normalize_segments segs (seg # kept))"

definition posix_resolve :: "string \<Rightarrow> string" where
  "posix_resolve p =
     (let full = (case p of [] \<Rightarrow> ''/work'' | c # cs \<Rightarrow> (if c = CHR ''/'' then p else ''/work/'' @ p))
      in CHR ''/'' # join ''/'' (normalize_segments (split_slash full) []))"

text \<open>
  A host with the given files and environment script, on which every call of \<open>spawn\<close>
  has the given outcome.
\<close>

definition posix_host :: "string list \<Rightarrow> string option \<Rightarrow> spawn_outcome \<Rightarrow> host" where
  "posix_host files rsvars outcome =
     \<lparr>resolve = posix_resolve,
      existsSync = (\<lambda>p. p \<in> set files),
      extname = posix_extname,
      dirname = posix_dirname,
      basename = posix_basename,
      RSVARS_BAT = rsvars,
      RSVARS_PATH = None,
      MSBUILD_PATH = None,
      spawn = (\<lambda>c. outcome)\<rparr>"

subsection \<open>Notions used to state the properties\<close>

text \<open>
  For a Delphi request: the environment-initialization script after defaults
  (\<open>rsvarsFinal\<close>), whether it is non-empty and exists on disk, and the build tool
  after defaults (\<open>msbuildFinal\<close>).
\<close>

definition env_script :: "host \<Rightarrow> delphi_req \<Rightarrow> string option" where
  "env_script h req = js_or (rsvarsPath req) (fst (resolveDefaults h))"

definition script_available :: "host \<Rightarrow> delphi_req \<Rightarrow> bool" where
  "script_available h req =
     (case env_script h req of None \<Rightarrow> False | Some r \<Rightarrow> r \<noteq> [] \<and> existsSync h r)"

definition script_path :: "host \<Rightarrow> delphi_req \<Rightarrow> string" where
  "script_path h req = (case env_script h req of None \<Rightarrow> [] | Some r \<Rightarrow> r)"

definition build_tool :: "host \<Rightarrow> delphi_req \<Rightarrow> string" where
  "build_tool h req = js_or_default (js_or (msbuildPath req) (snd (resolveDefaults h))) ''msbuild''"

text \<open>The two shapes of a launch by the Delphi functions.\<close>

definition direct_call :: "string \<Rightarrow> string list \<Rightarrow> spawn_call" where
  "direct_call tool v = \<lparr>cmd = tool, args = v, cwd = None, shell = True\<rparr>"

definition wrapped_call :: "string \<Rightarrow> string \<Rightarrow> string list \<Rightarrow> spawn_call" where
  "wrapped_call script tool v =
     \<lparr>cmd = ''cmd'', args = [''/s'', ''/c'', composite_instruction script tool v],
      cwd = None, shell = True\<rparr>"

text \<open>A request passes validation when its resolved input path exists and has an accepted extension.\<close>

definition resolved :: "host \<Rightarrow> tool_call \<Rightarrow> string" where
  "resolved h t = resolve h (input_path t)"

definition ext_of :: "host \<Rightarrow> tool_call \<Rightarrow> string" where
  "ext_of h t = toLowerCase (extname h (resolved h t))"

definition valid :: "host \<Rightarrow> tool_call \<Rightarrow> bool" where
  "valid h t = (existsSync h (resolved h t) \<and> ext_of h t \<in> set (accepted t))"

text \<open>
  The compiler's argument vector as the specification words it: each optional flag when
  its field is given and not empty, then one flag per entry of each list, then the quoted
  source path.
\<close>

definition opt_flag :: "string option \<Rightarrow> (string \<Rightarrow> string) \<Rightarrow> string list" where
  "opt_flag v f = (case v of None \<Rightarrow> [] | Some s \<Rightarrow> (if s \<noteq> [] then [f s] else []))"

definition entries :: "string list option \<Rightarrow> string list" where
  "entries xs = (case xs of None \<Rightarrow> [] | Some l \<Rightarrow> l)"

definition fpc_args_spec :: "host \<Rightarrow> string \<Rightarrow> fpc_req \<Rightarrow> string list" where
  "fpc_args_spec h srcPath req =
     opt_flag (cpu req) (\<lambda>c. ''-P'' @ c) @
     opt_flag (os req) (\<lambda>t. ''-T'' @ t) @
     opt_flag (output' req) (\<lambda>out. ''-o'' @ resolve h out) @
     map (\<lambda>d. ''-d'' @ d) (entries (defines' req)) @
     map (\<lambda>p. ''-Fu'' @ resolve h p) (entries (unitPaths req)) @
     map (\<lambda>p. ''-Fi'' @ resolve h p) (entries (includePaths req)) @
     [quoted srcPath]"


text \<open>Per tool: the label of the status line, the not-found error and the working directory.\<close>

fun label_of :: "tool_call \<Rightarrow> string" where
  "label_of (delphi_build req) = ''Build''"
| "label_of (delphi_clean req) = ''Clean''"
| "label_of (fpc_build req) = ''FPC build''"
| "label_of (lazarus_build req) = ''Lazarus build''"
| "label_of (lazarus_clean req) = ''Lazarus clean''"

fun not_found_error :: "host \<Rightarrow> tool_call \<Rightarrow> error" where
  "not_found_error h (fpc_build req) = NotFound (''Source not found: '' @ resolve h (source req))"
| "not_found_error h t = NotFound (''Project not found: '' @ resolve h (input_path t))"

fun expected_cwd :: "host \<Rightarrow> tool_call \<Rightarrow> string option" where
  "expected_cwd h (delphi_build req) = None"
| "expected_cwd h (delphi_clean req) = None"
| "expected_cwd h t = Some (dirname h (resolve h (input_path t)))"

text \<open>Sample requests: a Delphi request and a compile request with the given fields only.\<close>

definition delphi_request :: "string \<Rightarrow> string option \<Rightarrow> string option \<Rightarrow> string option \<Rightarrow> delphi_req" where
  "delphi_request p c pl rs =
     \<lparr>project = p, configuration = c, platform = pl, msbuildPath = None, rsvarsPath = rs\<rparr>"

definition fpc_request :: "string \<Rightarrow> string option \<Rightarrow> string option \<Rightarrow> string list option \<Rightarrow> fpc_req" where
  "fpc_request s c t ds =
     \<lparr>source = s, output' = None, defines' = ds, unitPaths = None, includePaths = None,
      cpu = c, os = t, fpcPath = None\<rparr>"

section \<open>Properties\<close>

subsection \<open>Auxiliary facts\<close>

lemma snd_runCommand:
  "snd (runCommand h c a d w) = w @ [\<lparr>cmd = c, args = a, cwd = d, shell = True\<rparr>]"
  by (simp add: runCommand_def Let_def split: spawn_outcome.splits)

lemma runMSBuild_missing:
  "\<not> existsSync h (resolve h (project req)) \<Longrightarrow>
   runMSBuild h target req w =
     (Rejected (NotFound (''Project not found: '' @ resolve h (project req))), w)"
  by (simp add: runMSBuild_def Let_def)

lemma runMSBuild_unsupported:
  "existsSync h (resolve h (project req)) \<Longrightarrow> \<not> isDelphiProject h (resolve h (project req)) \<Longrightarrow>
   runMSBuild h target req w =
     (Rejected (UnsupportedKind ''Unsupported project type. Provide a .dproj or .groupproj file''), w)"
  by (simp add: runMSBuild_def Let_def)

lemma runMSBuild_launch:
  assumes "existsSync h (resolve h (project req))" and "isDelphiProject h (resolve h (project req))"
  shows "snd (runMSBuild h target req w) =
     w @ [if script_available h req
          then wrapped_call (script_path h req) (build_tool h req)
                 (msbuild_args target (resolve h (project req)) (configuration req) (platform req))
          else direct_call (build_tool h req)
                 (msbuild_args target (resolve h (project req)) (configuration req) (platform req))]"
  using assms
  by (simp add: runMSBuild_def Let_def snd_runCommand script_available_def script_path_def
      env_script_def build_tool_def direct_call_def wrapped_call_def resolveDefaults_def
      split: option.splits)


lemma msbuild_args_none:
  "\<not> truthy c \<Longrightarrow> \<not> truthy p \<Longrightarrow>
   msbuild_args target P c p = quoted P # filter (\<lambda>s. s \<noteq> []) [target]"
  by (simp add: msbuild_args_def when_truthy_def quoted_def truthy_def split: option.splits)

lemma posix_ext_dproj: "posix_extname ''/work/App.dproj'' = ''.dproj''"
  by (simp add: posix_extname_def last_component_def)

lemma lower_dproj: "toLowerCase ''.dproj'' = ''.dproj''"
  by (simp add: toLowerCase_def lower_char_def)

lemma push_if_flag: "push_if v f as = as @ opt_flag v f"
  by (simp add: push_if_def opt_flag_def split: option.splits)

lemma fold_push: "fold (\<lambda>x acc. acc @ [f x]) xs as = as @ map f xs"
  by (induction xs arbitrary: as) simp_all

lemma push_each_map: "push_each xs f as = as @ map f (entries xs)"
  by (simp add: push_each_def entries_def fold_push)

lemma fpc_args_eq: "fpc_args h p req = fpc_args_spec h p req"
  by (simp add: fpc_args_def fpc_args_spec_def Let_def push_if_flag push_each_map)

lemma run_child_not_rejected: "run_child evs \<noteq> Rejected e"
  by (simp add: run_child_def promise_of_def split: option.splits)

lemma fst_runCommand:
  "fst (runCommand h c a d w) =
     (case spawn h \<lparr>cmd = c, args = a, cwd = d, shell = True\<rparr> of
        Throws e \<Rightarrow> Rejected (SpawnError e)
      | Child evs \<Rightarrow> run_child evs)"
  by (simp add: runCommand_def Let_def split: spawn_outcome.splits)

lemma runCommand_rejection:
  "fst (runCommand h c a d w) = Rejected e \<Longrightarrow> \<exists>m. e = SpawnError m"
proof (cases "spawn h \<lparr>cmd = c, args = a, cwd = d, shell = True\<rparr>")
  case (Throws m)
  assume "fst (runCommand h c a d w) = Rejected e"
  with Throws show ?thesis by (auto simp add: fst_runCommand)
next
  case (Child evs)
  assume "fst (runCommand h c a d w) = Rejected e"
  with Child have "run_child evs = Rejected e" by (simp add: fst_runCommand)
  with run_child_not_rejected [of evs e] show ?thesis by simp
qed

lemma call_tool_await:
  "call_tool h t w = await_then (run_tool h t w) (tool_response (label_of t) (basename h (input_path t)))"
  by (cases t) simp_all

lemma run_tool_missing:
  assumes "\<not> existsSync h (resolved h t)"
  shows "run_tool h t w = (Rejected (not_found_error h t), w)"
  using assms
  by (cases t)
     (simp_all add: resolved_def buildWithMSBuild_def cleanWithMSBuild_def runMSBuild_missing
        buildWithFpc_def lazarusBuild_def lazarusClean_def Let_def)

lemmas kind_defs = isDelphiProject_def isFpcSource_def isLazarusProject_def ext_of_def resolved_def

lemma run_tool_unsupported:
  assumes "existsSync h (resolved h t)" and "ext_of h t \<notin> set (accepted t)"
  shows "\<exists>m. run_tool h t w = (Rejected (UnsupportedKind m), w)"
  using assms
  by (cases t)
     (simp_all add: kind_defs buildWithMSBuild_def cleanWithMSBuild_def runMSBuild_def
        buildWithFpc_def lazarusBuild_def lazarusClean_def Let_def)

lemma run_tool_launch:
  assumes "valid h t"
  shows "\<exists>c a. run_tool h t w = runCommand h c a (expected_cwd h t) w"
proof (cases t)
  case (delphi_build req)
  with assms show ?thesis
    by (auto simp add: valid_def kind_defs buildWithMSBuild_def runMSBuild_def
        Let_def split: option.splits prod.splits)
next
  case (delphi_clean req)
  with assms show ?thesis
    by (auto simp add: valid_def kind_defs cleanWithMSBuild_def runMSBuild_def
        Let_def split: option.splits prod.splits)
next
  case (fpc_build req)
  with assms show ?thesis
    by (auto simp add: valid_def kind_defs buildWithFpc_def Let_def)
next
  case (lazarus_build req)
  with assms show ?thesis
    by (auto simp add: valid_def kind_defs lazarusBuild_def Let_def)
next
  case (lazarus_clean req)
  with assms show ?thesis
    by (auto simp add: valid_def kind_defs lazarusClean_def Let_def)
qed

lemma fst_await: "is_not_found (fst (await_then pw f)) = is_not_found (fst pw)"
  "is_unsupported (fst (await_then pw f)) = is_unsupported (fst pw)"
  "snd (await_then pw f) = snd pw"
  by (auto simp add: await_then_def is_not_found_def is_unsupported_def split: prod.splits promise.splits)

lemma app_host_facts:
  "resolve (posix_host (''/work/App.dproj'' # fs) rs x) ''App.dproj'' = ''/work/App.dproj''"
  "existsSync (posix_host (''/work/App.dproj'' # fs) rs x) ''/work/App.dproj''"
  "isDelphiProject (posix_host (''/work/App.dproj'' # fs) rs x) ''/work/App.dproj''"
  by (simp_all add: posix_host_def posix_resolve_def isDelphiProject_def posix_ext_dproj lower_dproj)

lemma delphi_request_sel:
  "project (delphi_request p c pl rs) = p"
  "configuration (delphi_request p c pl rs) = c"
  "platform (delphi_request p c pl rs) = pl"
  "msbuildPath (delphi_request p c pl rs) = None"
  "rsvarsPath (delphi_request p c pl rs) = rs"
  by (simp_all add: delphi_request_def)

lemma posix_host_env:
  "RSVARS_BAT (posix_host fs rs x) = rs"
  "RSVARS_PATH (posix_host fs rs x) = None"
  "MSBUILD_PATH (posix_host fs rs x) = None"
  "existsSync (posix_host fs rs x) p = (p \<in> set fs)"
  by (simp_all add: posix_host_def)

lemma posix_ext_lpr: "posix_extname ''/work/main.lpr'' = ''.lpr''"
  by (simp add: posix_extname_def last_component_def)

lemma lower_lpr: "toLowerCase ''.lpr'' = ''.lpr''"
  by (simp add: toLowerCase_def lower_char_def)

lemma fpc_request_sel:
  "source (fpc_request s c t ds) = s"
  "output' (fpc_request s c t ds) = None"
  "defines' (fpc_request s c t ds) = ds"
  "unitPaths (fpc_request s c t ds) = None"
  "includePaths (fpc_request s c t ds) = None"
  "cpu (fpc_request s c t ds) = c"
  "os (fpc_request s c t ds) = t"
  "fpcPath (fpc_request s c t ds) = None"
  by (simp_all add: fpc_request_def)

lemma posix_host_path:
  "resolve (posix_host fs rs x) = posix_resolve"
  "extname (posix_host fs rs x) = posix_extname"
  "dirname (posix_host fs rs x) = posix_dirname"
  "basename (posix_host fs rs x) = posix_basename"
  "spawn (posix_host fs rs x) c = x"
  by (simp_all add: posix_host_def)

lemma not_found_error_shape: "\<exists>m. not_found_error h t = NotFound m"
  by (cases t) simp_all

lemma await_rejected: "await_then (Rejected e, w) f = (Rejected e, w)"
  by (simp add: await_then_def)






lemma posix_ext_txt: "posix_extname ''/work/notes.txt'' = ''.txt''"
  by (simp add: posix_extname_def last_component_def)

lemma posix_ext_p: "posix_extname ''/work/unit.p'' = ''.p''"
  by (simp add: posix_extname_def last_component_def)

lemma lower_txt: "toLowerCase ''.txt'' = ''.txt''"
  by (simp add: toLowerCase_def lower_char_def)

lemma lower_p: "toLowerCase ''.p'' = ''.p''"
  by (simp add: toLowerCase_def lower_char_def)

lemma resolve_work:
  "posix_resolve ''notes.txt'' = ''/work/notes.txt''"
  "posix_resolve ''unit.p'' = ''/work/unit.p''"
  "posix_resolve ''main.lpr'' = ''/work/main.lpr''"
  "posix_resolve ''App.dproj'' = ''/work/App.dproj''"
  by (simp_all add: posix_resolve_def)

lemma valid_main_lpr:
  "valid (posix_host [''/work/main.lpr''] rs x) (fpc_build (fpc_request ''main.lpr'' c t ds))"
  by (simp add: valid_def ext_of_def resolved_def posix_host_env posix_host_path fpc_request_sel
      resolve_work posix_ext_lpr lower_lpr)

lemma valid_app_dproj:
  "valid (posix_host [''/work/App.dproj''] rs x) (delphi_clean (delphi_request ''App.dproj'' c pl s))"
  by (simp add: valid_def ext_of_def resolved_def posix_host_env posix_host_path delphi_request_sel
      resolve_work posix_ext_dproj lower_dproj)

lemma await_fulfilled: "fst pw = Fulfilled r \<Longrightarrow> fst (await_then pw f) = Fulfilled (f r)"
  by (cases pw) (simp add: await_then_def)

subsection \<open>Argument vector of a Release/Win64 build\<close>



subsection \<open>Argument vector of a compile request\<close>



subsection \<open>One launch, wrapped exactly when the script is available\<close>

text \<open>
  C5. A build or clean request that passes validation launches exactly one command. When
  the environment-initialization script (the request's, or else the environment's) is
  non-empty and exists on disk, that command is \<open>cmd /s /c\<close> with one composite
  instruction: echo off, the call of the script, and the tool with its arguments,
  chained by \<open>&&\<close>. Otherwise the command is the build tool itself with the
  argument vector.
\<close>

theorem msbuild_single_launch:
  assumes "existsSync h (resolve h (project req))" and "isDelphiProject h (resolve h (project req))"
  shows "snd (buildWithMSBuild h req w) =
           w @ [if script_available h req
                then \<lparr>cmd = ''cmd'',
                      args = [''/s'', ''/c'',
                        [dq] @ ''@echo off && '' @ (''call '' @ quoted (script_path h req)) @ '' && '' @
                        (build_tool h req @ '' '' @ join '' ''
                           (msbuild_args ''/t:Build'' (resolve h (project req)) (configuration req) (platform req)))
                        @ [dq]],
                      cwd = None, shell = True\<rparr>
                else \<lparr>cmd = build_tool h req,
                      args = msbuild_args ''/t:Build'' (resolve h (project req)) (configuration req) (platform req),
                      cwd = None, shell = True\<rparr>]
       \<and> snd (cleanWithMSBuild h req w) =
           w @ [if script_available h req
                then \<lparr>cmd = ''cmd'',
                      args = [''/s'', ''/c'',
                        [dq] @ ''@echo off && '' @ (''call '' @ quoted (script_path h req)) @ '' && '' @
                        (build_tool h req @ '' '' @ join '' ''
                           (msbuild_args ''/t:Clean'' (resolve h (project req)) (configuration req) (platform req)))
                        @ [dq]],
                      cwd = None, shell = True\<rparr>
                else \<lparr>cmd = build_tool h req,
                      args = msbuild_args ''/t:Clean'' (resolve h (project req)) (configuration req) (platform req),
                      cwd = None, shell = True\<rparr>]"
  using runMSBuild_launch [OF assms, of "''/t:Build''" w] runMSBuild_launch [OF assms, of "''/t:Clean''" w]
  by (simp add: buildWithMSBuild_def cleanWithMSBuild_def wrapped_call_def direct_call_def
      composite_instruction_def quoted_def)

theorem msbuild_single_launch_witness:
  "snd (buildWithMSBuild (posix_host [''/work/App.dproj'', ''/rs.bat''] None (Child [Close (Some 0)]))
          (delphi_request ''App.dproj'' None None (Some ''/rs.bat'')) []) =
     [\<lparr>cmd = ''cmd'',
       args = [''/s'', ''/c'',
               [dq] @ ''@echo off && call '' @ [dq] @ ''/rs.bat'' @ [dq] @ '' && msbuild '' @
               [dq] @ ''/work/App.dproj'' @ [dq] @ '' /t:Build'' @ [dq]],
       cwd = None, shell = True\<rparr>]
   \<and> snd (buildWithMSBuild (posix_host [''/work/App.dproj''] None (Child [Close (Some 0)]))
          (delphi_request ''App.dproj'' None None (Some ''/rs.bat'')) []) =
     [\<lparr>cmd = ''msbuild'', args = [[dq] @ ''/work/App.dproj'' @ [dq], ''/t:Build''],
       cwd = None, shell = True\<rparr>]"
proof -
  let ?h = "posix_host [''/work/App.dproj'', ''/rs.bat''] None (Child [Close (Some 0)])"
  let ?g = "posix_host [''/work/App.dproj''] None (Child [Close (Some 0)])"
  let ?r = "delphi_request ''App.dproj'' None None (Some ''/rs.bat'')"
  have e: "existsSync ?h (resolve ?h (project ?r))"
    and d: "isDelphiProject ?h (resolve ?h (project ?r))"
    and e': "existsSync ?g (resolve ?g (project ?r))"
    and d': "isDelphiProject ?g (resolve ?g (project ?r))"
    by (simp_all add: delphi_request_sel app_host_facts)
  have s: "script_available ?h ?r" "script_path ?h ?r = ''/rs.bat''" "\<not> script_available ?g ?r"
    by (simp_all add: script_available_def script_path_def env_script_def js_or_def truthy_def
        resolveDefaults_def posix_host_env delphi_request_sel)
  have b: "build_tool ?h ?r = ''msbuild''" "build_tool ?g ?r = ''msbuild''"
    by (simp_all add: build_tool_def js_or_def js_or_default_def truthy_def resolveDefaults_def
        posix_host_env delphi_request_sel)
  have v: "msbuild_args ''/t:Build'' ''/work/App.dproj'' None None = [quoted ''/work/App.dproj'', ''/t:Build'']"
    by (simp add: msbuild_args_none truthy_def)
  show ?thesis
    using msbuild_single_launch [OF e d, of "[]"] msbuild_single_launch [OF e' d', of "[]"] s b v
    by (simp add: delphi_request_sel app_host_facts quoted_def)
qed

subsection \<open>No property flags without configuration and platform\<close>

text \<open>
  C7. When the configuration and the platform that \<open>buildWithMSBuild\<close> or
  \<open>cleanWithMSBuild\<close> receives are both absent or empty, the argument vector is exactly
  the quoted absolute project path followed by the target flag: no \<open>/p:Config=\<close> and no
  \<open>/p:Platform=\<close> token appears.
\<close>

theorem msbuild_args_no_properties:
  assumes "\<not> truthy (configuration req)" and "\<not> truthy (platform req)"
    and "existsSync h (resolve h (project req))" and "isDelphiProject h (resolve h (project req))"
  shows "msbuild_args ''/t:Build'' (resolve h (project req)) (configuration req) (platform req) =
           [quoted (resolve h (project req)), ''/t:Build'']
       \<and> msbuild_args ''/t:Clean'' (resolve h (project req)) (configuration req) (platform req) =
           [quoted (resolve h (project req)), ''/t:Clean'']
       \<and> snd (buildWithMSBuild h req w) =
           w @ [if script_available h req
                then wrapped_call (script_path h req) (build_tool h req)
                       [quoted (resolve h (project req)), ''/t:Build'']
                else direct_call (build_tool h req) [quoted (resolve h (project req)), ''/t:Build'']]
       \<and> snd (cleanWithMSBuild h req w) =
           w @ [if script_available h req
                then wrapped_call (script_path h req) (build_tool h req)
                       [quoted (resolve h (project req)), ''/t:Clean'']
                else direct_call (build_tool h req) [quoted (resolve h (project req)), ''/t:Clean'']]"
proof -
  have b: "msbuild_args ''/t:Build'' (resolve h (project req)) (configuration req) (platform req) =
           [quoted (resolve h (project req)), ''/t:Build'']"
    using assms(1,2) by (simp add: msbuild_args_none)
  have c: "msbuild_args ''/t:Clean'' (resolve h (project req)) (configuration req) (platform req) =
           [quoted (resolve h (project req)), ''/t:Clean'']"
    using assms(1,2) by (simp add: msbuild_args_none)
  show ?thesis
    using runMSBuild_launch [OF assms(3,4), of "''/t:Build''" w]
      runMSBuild_launch [OF assms(3,4), of "''/t:Clean''" w] b c
    by (simp add: buildWithMSBuild_def cleanWithMSBuild_def)
qed

theorem msbuild_args_no_properties_witness:
  "snd (cleanWithMSBuild (posix_host [''/work/App.dproj''] None (Child [Close (Some 0)]))
          (delphi_request ''App.dproj'' None (Some []) None) []) =
     [direct_call ''msbuild'' [quoted ''/work/App.dproj'', ''/t:Clean'']]"
proof -
  let ?h = "posix_host [''/work/App.dproj''] None (Child [Close (Some 0)])"
  let ?r = "delphi_request ''App.dproj'' None (Some []) None"
  have c: "\<not> truthy (configuration ?r)" and p: "\<not> truthy (platform ?r)"
    by (simp_all add: delphi_request_sel truthy_def)
  have e: "existsSync ?h (resolve ?h (project ?r))"
    and d: "isDelphiProject ?h (resolve ?h (project ?r))"
    by (simp_all add: delphi_request_sel app_host_facts)
  have n: "\<not> script_available ?h ?r"
    by (simp add: script_available_def env_script_def js_or_def truthy_def resolveDefaults_def
        posix_host_env delphi_request_sel)
  have b: "build_tool ?h ?r = ''msbuild''"
    by (simp add: build_tool_def js_or_def js_or_default_def truthy_def resolveDefaults_def
        posix_host_env delphi_request_sel)
  show ?thesis
    using msbuild_args_no_properties [OF c p e d, of "[]"] n b
    by (simp add: delphi_request_sel app_host_facts)
qed

subsection \<open>Unsupported extensions\<close>

text \<open>
  C3, as amended. For a request whose input path resolves to an existing file, the
  handler fails with the unsupported-kind error if and only if the extension of the
  resolved path, in lower case, is not among those its handler accepts: \<open>.dproj\<close> and
  \<open>.groupproj\<close> for \<open>delphi.build\<close> and \<open>delphi.clean\<close>; \<open>.pas\<close>, \<open>.pp\<close>, \<open>.p\<close> and
  \<open>.lpr\<close> for \<open>fpc.build\<close>; \<open>.lpi\<close> for \<open>lazarus.build\<close> and \<open>lazarus.clean\<close>. In
  that failure case nothing is launched.
\<close>

theorem unsupported_iff_extension:
  assumes "existsSync h (resolved h t)"
  shows "(is_unsupported (fst (call_tool h t w)) \<longleftrightarrow> ext_of h t \<notin> set (accepted t))
       \<and> (is_unsupported (fst (call_tool h t w)) \<longrightarrow> snd (call_tool h t w) = w)"
proof (cases "ext_of h t \<in> set (accepted t)")
  case True
  with assms have "valid h t" by (simp add: valid_def)
  from run_tool_launch [OF this, of w] obtain c a
    where "run_tool h t w = runCommand h c a (expected_cwd h t) w" by blast
  then have "\<not> is_unsupported (fst (run_tool h t w))"
    using runCommand_rejection [of h c a "expected_cwd h t" w]
    by (auto simp add: is_unsupported_def split: promise.splits error.splits)
  with True show ?thesis
    by (simp add: call_tool_await fst_await)
next
  case False
  from run_tool_unsupported [OF assms False, of w] obtain m
    where "run_tool h t w = (Rejected (UnsupportedKind m), w)" by blast
  with False show ?thesis
    by (simp add: call_tool_await await_rejected is_unsupported_def)
qed

theorem unsupported_iff_extension_witness:
  "existsSync (posix_host [''/work/notes.txt''] None (Child [Close (Some 0)]))
     (resolved (posix_host [''/work/notes.txt''] None (Child [Close (Some 0)]))
        (fpc_build (fpc_request ''notes.txt'' None None None)))
   \<and> is_unsupported (fst (call_tool (posix_host [''/work/notes.txt''] None (Child [Close (Some 0)]))
        (fpc_build (fpc_request ''notes.txt'' None None None)) []))
   \<and> snd (call_tool (posix_host [''/work/notes.txt''] None (Child [Close (Some 0)]))
        (fpc_build (fpc_request ''notes.txt'' None None None)) []) = []"
proof -
  let ?h = "posix_host [''/work/notes.txt''] None (Child [Close (Some 0)])"
  let ?t = "fpc_build (fpc_request ''notes.txt'' None None None)"
  have e: "existsSync ?h (resolved ?h ?t)"
    by (simp add: posix_host_env resolved_def posix_host_path fpc_request_sel resolve_work)
  have x: "ext_of ?h ?t = ''.txt''"
    by (simp add: ext_of_def resolved_def posix_host_path fpc_request_sel resolve_work
        posix_ext_txt lower_txt)
  then have u: "ext_of ?h ?t \<notin> set (accepted ?t)"
    by simp
  show ?thesis
    using unsupported_iff_extension [OF e, of "[]"] u e by blast
qed

text \<open>
  With the compiler's accepted set read as \<open>.lpr\<close>, \<open>.pas\<close>, \<open>.pp\<close> only, the
  equivalence fails: an existing \<open>unit.p\<close> is outside that set, yet \<open>isFpcSource\<close>
  accepts it and the compiler is launched.
\<close>

theorem unit_p_accepted_counterexample:
  "existsSync (posix_host [''/work/unit.p''] None (Child [Close (Some 0)]))
     (resolved (posix_host [''/work/unit.p''] None (Child [Close (Some 0)]))
        (fpc_build (fpc_request ''unit.p'' None None None)))
   \<and> ext_of (posix_host [''/work/unit.p''] None (Child [Close (Some 0)]))
        (fpc_build (fpc_request ''unit.p'' None None None))
      \<notin> set (spec_accepted (fpc_build (fpc_request ''unit.p'' None None None)))
   \<and> \<not> is_unsupported (fst (call_tool (posix_host [''/work/unit.p''] None (Child [Close (Some 0)]))
        (fpc_build (fpc_request ''unit.p'' None None None)) []))
   \<and> snd (call_tool (posix_host [''/work/unit.p''] None (Child [Close (Some 0)]))
        (fpc_build (fpc_request ''unit.p'' None None None)) []) =
      [\<lparr>cmd = ''fpc'', args = [quoted ''/work/unit.p''], cwd = Some ''/work'', shell = True\<rparr>]"
proof -
  let ?h = "posix_host [''/work/unit.p''] None (Child [Close (Some 0)])"
  let ?r = "fpc_request ''unit.p'' None None None"
  have e: "existsSync ?h (resolved ?h (fpc_build ?r))"
    by (simp add: posix_host_env resolved_def posix_host_path fpc_request_sel resolve_work)
  have x: "ext_of ?h (fpc_build ?r) = ''.p''"
    by (simp add: ext_of_def resolved_def posix_host_path fpc_request_sel resolve_work
        posix_ext_p lower_p)
  have d: "posix_dirname ''/work/unit.p'' = ''/work''"
    by (simp add: posix_dirname_def)
  have a: "fpc_args ?h ''/work/unit.p'' ?r = [quoted ''/work/unit.p'']"
    by (simp add: fpc_args_eq fpc_args_spec_def opt_flag_def entries_def fpc_request_sel)
  have b: "buildWithFpc ?h ?r [] =
      (Fulfilled \<lparr>code = Some 0, stdout = [], stderr = []\<rparr>,
       [\<lparr>cmd = ''fpc'', args = [quoted ''/work/unit.p''], cwd = Some ''/work'', shell = True\<rparr>])"
    by (simp add: buildWithFpc_def Let_def posix_host_path posix_host_env fpc_request_sel
        resolve_work isFpcSource_def posix_ext_p lower_p a d js_or_default_def runCommand_def
        run_child_def promise_of_def run_init_def on_event_def)
  show ?thesis
    using e x b by (simp add: await_then_def is_unsupported_def)
qed

subsection \<open>A missing input launches nothing\<close>

text \<open>
  C4. For every request kind, when the input path does not resolve to an existing file
  the handler fails with the not-found error of its function and the list of launched
  commands is unchanged: \<open>runCommand\<close> is not reached.
\<close>

theorem missing_input_no_spawn:
  assumes "\<not> existsSync h (resolved h t)"
  shows "is_not_found (fst (call_tool h t w)) \<and> snd (call_tool h t w) = w
       \<and> run_tool h t w = (Rejected (not_found_error h t), w)"
proof -
  obtain m where m: "not_found_error h t = NotFound m"
    using not_found_error_shape by blast
  have "call_tool h t w = (Rejected (NotFound m), w)"
    using run_tool_missing [OF assms, of w] m by (simp add: call_tool_await await_rejected)
  then show ?thesis
    using run_tool_missing [OF assms, of w] by (simp add: is_not_found_def)
qed

theorem missing_input_no_spawn_witness:
  "\<not> existsSync (posix_host [] None (Child [Close (Some 0)]))
       (resolved (posix_host [] None (Child [Close (Some 0)]))
          (delphi_build (delphi_request ''App.dproj'' None None None)))
   \<and> call_tool (posix_host [] None (Child [Close (Some 0)]))
        (delphi_build (delphi_request ''App.dproj'' None None None)) [] =
      (Rejected (NotFound ''Project not found: /work/App.dproj''), [])"
proof -
  let ?h = "posix_host [] None (Child [Close (Some 0)])"
  let ?t = "delphi_build (delphi_request ''App.dproj'' None None None)"
  have m: "\<not> existsSync ?h (resolved ?h ?t)"
    by (simp add: posix_host_env)
  have n: "not_found_error ?h ?t = NotFound ''Project not found: /work/App.dproj''"
    by (simp add: posix_host_path delphi_request_sel resolve_work)
  have "call_tool ?h ?t [] = (Rejected (NotFound ''Project not found: /work/App.dproj''), [])"
    using missing_input_no_spawn [OF m, of "[]"] n
    by (simp add: call_tool_await await_rejected)
  with m show ?thesis by blast
qed

subsection \<open>The response is derived from the one result\<close>

text \<open>
  C6. For every request kind and every result \<open>r\<close> of the awaited execution, the handler
  answers with the response built from \<open>r\<close>: its error flag is true if and only if the
  exit code of \<open>r\<close> is absent or is present and not zero, that is, the flag is false
  exactly when the code is \<open>0\<close>; and its four segments are the status line, the
  exit-code line, the stdout block and the stderr block of \<open>r\<close>.
\<close>

theorem response_from_result:
  assumes "fst (run_tool h t w) = Fulfilled r"
  shows "\<exists>resp. fst (call_tool h t w) = Fulfilled resp
       \<and> resp = tool_response (label_of t) (basename h (input_path t)) r
       \<and> snd (call_tool h t w) = snd (run_tool h t w)
       \<and> (isError resp \<longleftrightarrow> code r = None \<or> (\<exists>k. code r = Some k \<and> k \<noteq> 0))
       \<and> (\<not> isError resp \<longleftrightarrow> code r = Some 0)
       \<and> content resp =
           [if code r = Some 0 then label_of t @ '' succeeded for '' @ basename h (input_path t)
            else label_of t @ '' failed for '' @ basename h (input_path t),
            ''Exit code: '' @ show_code (code r),
            ''--- STDOUT ---'' @ [CHR 0x0A] @ stdout r,
            ''--- STDERR ---'' @ [CHR 0x0A] @ stderr r]"
proof -
  let ?resp = "tool_response (label_of t) (basename h (input_path t)) r"
  have c: "fst (call_tool h t w) = Fulfilled ?resp"
    unfolding call_tool_await by (rule await_fulfilled [OF assms])
  have w: "snd (call_tool h t w) = snd (run_tool h t w)"
    by (simp add: call_tool_await fst_await)
  have "isError ?resp \<longleftrightarrow> code r = None \<or> (\<exists>k. code r = Some k \<and> k \<noteq> 0)"
    by (cases "code r") (simp_all add: tool_response_def Let_def)
  moreover have "\<not> isError ?resp \<longleftrightarrow> code r = Some 0"
    by (simp add: tool_response_def Let_def)
  moreover have "content ?resp =
           [if code r = Some 0 then label_of t @ '' succeeded for '' @ basename h (input_path t)
            else label_of t @ '' failed for '' @ basename h (input_path t),
            ''Exit code: '' @ show_code (code r),
            ''--- STDOUT ---'' @ [CHR 0x0A] @ stdout r,
            ''--- STDERR ---'' @ [CHR 0x0A] @ stderr r]"
    by (simp add: tool_response_def Let_def)
  ultimately show ?thesis using c w by blast
qed

theorem response_from_result_witness:
  "fst (run_tool (posix_host [''/work/main.lpr''] None (Child [StdoutData ''Fatal'', Close (Some 1)]))
          (fpc_build (fpc_request ''main.lpr'' None None None)) []) =
     Fulfilled \<lparr>code = Some 1, stdout = ''Fatal'', stderr = []\<rparr>
   \<and> fst (call_tool (posix_host [''/work/main.lpr''] None (Child [StdoutData ''Fatal'', Close (Some 1)]))
          (fpc_build (fpc_request ''main.lpr'' None None None)) []) =
     Fulfilled \<lparr>content = [''FPC build failed for main.lpr'', ''Exit code: 1'',
                           ''--- STDOUT ---'' @ [CHR 0x0A] @ ''Fatal'',
                           ''--- STDERR ---'' @ [CHR 0x0A]],
                isError = True\<rparr>"
proof -
  let ?h = "posix_host [''/work/main.lpr''] None (Child [StdoutData ''Fatal'', Close (Some 1)])"
  let ?r = "fpc_request ''main.lpr'' None None None"
  have a: "fpc_args ?h ''/work/main.lpr'' ?r = [quoted ''/work/main.lpr'']"
    by (simp add: fpc_args_eq fpc_args_spec_def opt_flag_def entries_def fpc_request_sel)
  have b: "fst (run_tool ?h (fpc_build ?r) []) =
             Fulfilled \<lparr>code = Some 1, stdout = ''Fatal'', stderr = []\<rparr>"
    by (simp add: buildWithFpc_def Let_def posix_host_path posix_host_env fpc_request_sel
        resolve_work isFpcSource_def posix_ext_lpr lower_lpr a js_or_default_def runCommand_def
        run_child_def promise_of_def run_init_def on_event_def)
  have n: "posix_basename ''main.lpr'' = ''main.lpr''"
    by (simp add: posix_basename_def last_component_def)
  have s: "show_code (Some 1) = ''1''"
    by (simp add: show_code_def show_int_def)
  from response_from_result [OF b] obtain resp
    where c: "fst (call_tool ?h (fpc_build ?r) []) = Fulfilled resp"
      and e: "isError resp"
      and k: "content resp =
        [''FPC build failed for main.lpr'', ''Exit code: 1'',
         ''--- STDOUT ---'' @ [CHR 0x0A] @ ''Fatal'', ''--- STDERR ---'' @ [CHR 0x0A]]"
    by (auto simp add: posix_host_path fpc_request_sel n s)
  from e k have "resp = \<lparr>content = [''FPC build failed for main.lpr'', ''Exit code: 1'',
                           ''--- STDOUT ---'' @ [CHR 0x0A] @ ''Fatal'',
                           ''--- STDERR ---'' @ [CHR 0x0A]],
                isError = True\<rparr>"
    by (cases resp) simp
  with b c show ?thesis by simp
qed

subsection \<open>The executor's promise\<close>




subsection \<open>Not-found before unsupported\<close>

text \<open>
  C9. For every request kind, when the input path does not resolve to an existing file
  and its extension is also outside the accepted set, the handler raises the not-found
  error, not the unsupported-kind error: existence is checked first.
\<close>

theorem not_found_before_unsupported:
  assumes "\<not> existsSync h (resolved h t)" and "ext_of h t \<notin> set (accepted t)"
  shows "fst (call_tool h t w) = Rejected (not_found_error h t)
       \<and> is_not_found (fst (call_tool h t w)) \<and> \<not> is_unsupported (fst (call_tool h t w))"
proof -
  obtain m where m: "not_found_error h t = NotFound m"
    using not_found_error_shape by blast
  have "call_tool h t w = (Rejected (NotFound m), w)"
    using run_tool_missing [OF assms(1), of w] m by (simp add: call_tool_await await_rejected)
  then show ?thesis
    using m by (simp add: is_not_found_def is_unsupported_def)
qed

theorem not_found_before_unsupported_witness:
  "ext_of (posix_host [] None (Child [Close (Some 0)]))
     (lazarus_clean \<lparr>lc_project = ''notes.txt'', lc_lazbuildPath = None\<rparr>) = ''.txt''
   \<and> fst (call_tool (posix_host [] None (Child [Close (Some 0)]))
        (lazarus_clean \<lparr>lc_project = ''notes.txt'', lc_lazbuildPath = None\<rparr>) []) =
      Rejected (NotFound ''Project not found: /work/notes.txt'')"
proof -
  let ?h = "posix_host [] None (Child [Close (Some 0)])"
  let ?t = "lazarus_clean \<lparr>lc_project = ''notes.txt'', lc_lazbuildPath = None\<rparr>"
  have m: "\<not> existsSync ?h (resolved ?h ?t)"
    by (simp add: posix_host_env)
  have x: "ext_of ?h ?t = ''.txt''"
    by (simp add: ext_of_def resolved_def posix_host_path resolve_work posix_ext_txt lower_txt)
  then have u: "ext_of ?h ?t \<notin> set (accepted ?t)"
    by simp
  have n: "not_found_error ?h ?t = NotFound ''Project not found: /work/notes.txt''"
    by (simp add: posix_host_path resolve_work)
  show ?thesis
    using not_found_before_unsupported [OF m u, of "[]"] n x by simp
qed

subsection \<open>Working directory of the launch\<close>

text \<open>
  C10. A request that passes validation launches one command whose working directory
  is the directory of the resolved source or project file for \<open>fpc.build\<close>,
  \<open>lazarus.build\<close> and \<open>lazarus.clean\<close>, and is not set for \<open>delphi.build\<close> and
  \<open>delphi.clean\<close>, which therefore run in the server's own working directory.
\<close>

theorem launch_working_directory:
  assumes "valid h t"
  shows "\<exists>c. snd (run_tool h t w) = w @ [c] \<and> cwd c = expected_cwd h t"
proof -
  from run_tool_launch [OF assms, of w] obtain c a
    where "run_tool h t w = runCommand h c a (expected_cwd h t) w" by blast
  then show ?thesis by (simp add: snd_runCommand)
qed

theorem launch_working_directory_witness:
  "(\<exists>c. snd (run_tool (posix_host [''/work/main.lpr''] None (Child [Close (Some 0)]))
            (fpc_build (fpc_request ''main.lpr'' None None None)) []) = [c]
        \<and> cwd c = Some ''/work'')
   \<and> (\<exists>c. snd (run_tool (posix_host [''/work/App.dproj''] None (Child [Close (Some 0)]))
            (delphi_clean (delphi_request ''App.dproj'' None None None)) []) = [c]
        \<and> cwd c = None)"
proof -
  have d: "posix_dirname ''/work/main.lpr'' = ''/work''"
    by (simp add: posix_dirname_def)
  show ?thesis
    using launch_working_directory [OF valid_main_lpr, of None "Child [Close (Some 0)]" None None None "[]"]
      launch_working_directory [OF valid_app_dproj, of None "Child [Close (Some 0)]" None None None "[]"]
    by (simp add: posix_host_path fpc_request_sel resolve_work d)
qed

end
